theory Spec2Isabelle
  imports Main
begin

section \<open>Python values decoded from JSON\<close>

text \<open>
  The tools of \<^verbatim>\<open>weather.py\<close> read whatever \<^verbatim>\<open>response.json()\<close> decoded, with no
  schema: a value is \<^verbatim>\<open>None\<close>, a bool, an int, a float, a str, a list or a dict with
  str keys. Strings are UTF-8 byte strings. A dict is the list of its items in insertion
  order (the keys of a decoded dict are distinct). Of a float the program observes only
  whether it is zero and the text \<^verbatim>\<open>str()\<close> gives for it, so a float is carried as
  these two observations.
\<close>

datatype pyfloat = PyFloat (nonzero: bool) (shown: string)

datatype json =
    JNull
  | JBool bool
  | JInt int
  | JFloat pyfloat
  | JStr string
  | JArr "json list"
  | JObj "(string \<times> json) list"

datatype py_error = KeyError | TypeError | AttributeError | TypeError_or_KeyError

text \<open>\<^verbatim>\<open>bool(v)\<close>, as \<^verbatim>\<open>not v\<close> and \<^verbatim>\<open>if v\<close> use it.\<close>

fun truthy :: "json \<Rightarrow> bool" where
  "truthy JNull = False"
| "truthy (JBool b) = b"
| "truthy (JInt i) = (i \<noteq> 0)"
| "truthy (JFloat f) = nonzero f"
| "truthy (JStr s) = (s \<noteq> [])"
| "truthy (JArr xs) = (xs \<noteq> [])"
| "truthy (JObj kvs) = (kvs \<noteq> [])"

text \<open>\<^verbatim>\<open>sub in s\<close> on two strs: \<^verbatim>\<open>sub\<close> occurs in \<^verbatim>\<open>s\<close> as a contiguous run.\<close>

fun starts_with :: "string \<Rightarrow> string \<Rightarrow> bool" where
  "starts_with [] s = True"
| "starts_with (c # cs) [] = False"
| "starts_with (c # cs) (d # ds) = (c = d \<and> starts_with cs ds)"

fun str_contains :: "string \<Rightarrow> string \<Rightarrow> bool" where
  "str_contains sub [] = (sub = [])"
| "str_contains sub (d # ds) = (starts_with sub (d # ds) \<or> str_contains sub ds)"

text \<open>
  \<^verbatim>\<open>k in v\<close> for a str \<^verbatim>\<open>k\<close>: key membership on a dict, element equality on a list,
  substring on a str, \<^verbatim>\<open>TypeError\<close> on anything else (not iterable).
\<close>

fun py_in :: "string \<Rightarrow> json \<Rightarrow> py_error + bool" where
  "py_in k (JObj kvs) = Inr (map_of kvs k \<noteq> None)"
| "py_in k (JArr xs) = Inr (JStr k \<in> set xs)"
| "py_in k (JStr s) = Inr (str_contains k s)"
| "py_in k v = Inl TypeError"

text \<open>
  \<^verbatim>\<open>v[k]\<close> for a str \<^verbatim>\<open>k\<close>: the value on a dict (\<^verbatim>\<open>KeyError\<close> when the key is
  missing), \<^verbatim>\<open>TypeError\<close> on anything else (list and str indices must be integers,
  the other types are not subscriptable).
\<close>

fun subscript :: "json \<Rightarrow> string \<Rightarrow> py_error + json" where
  "subscript (JObj kvs) k = (case map_of kvs k of None \<Rightarrow> Inl KeyError | Some v \<Rightarrow> Inr v)"
| "subscript v k = Inl TypeError"

text \<open>
  \<^verbatim>\<open>v.get(k, default)\<close>: only a dict has the method; every other decoded value raises
  \<^verbatim>\<open>AttributeError\<close>.
\<close>

fun dict_get :: "json \<Rightarrow> string \<Rightarrow> json \<Rightarrow> py_error + json" where
  "dict_get (JObj kvs) k d = (case map_of kvs k of None \<Rightarrow> Inr d | Some v \<Rightarrow> Inr v)"
| "dict_get v k d = Inl AttributeError"

text \<open>
  The characters of a str, each as a str of its own: a UTF-8 lead byte with the
  continuation bytes (\<^verbatim>\<open>0x80\<close> to \<^verbatim>\<open>0xBF\<close>) that follow it.
\<close>

definition continuation :: "char \<Rightarrow> bool" where
  "continuation c = (128 \<le> (of_char c :: nat) \<and> (of_char c :: nat) < 192)"

function str_chars :: "string \<Rightarrow> string list" where
  "str_chars [] = []"
| "str_chars (c # cs) =
     (c # takeWhile continuation cs) # str_chars (dropWhile continuation cs)"
  by pat_completeness auto
termination
  by (relation "measure length") (auto simp: length_dropWhile_le less_Suc_eq_le)

text \<open>
  \<^verbatim>\<open>for x in v\<close>: the elements of a list, the keys of a dict, the characters of a str;
  \<^verbatim>\<open>TypeError\<close> on anything else.
\<close>

fun iterate :: "json \<Rightarrow> py_error + json list" where
  "iterate (JArr xs) = Inr xs"
| "iterate (JObj kvs) = Inr (map (\<lambda>kv. JStr (fst kv)) kvs)"
| "iterate (JStr s) = Inr (map JStr (str_chars s))"
| "iterate v = Inl TypeError"

text \<open>
  \<^verbatim>\<open>v[:5]\<close>: the first five elements of a list, the first five characters of a str. On a
  dict the slice is looked up as a key: \<^verbatim>\<open>TypeError\<close> (unhashable) up to Python 3.11,
  \<^verbatim>\<open>KeyError\<close> from 3.12 on. Anything else is not subscriptable.
\<close>

fun first_five :: "json \<Rightarrow> py_error + json" where
  "first_five (JArr xs) = Inr (JArr (take 5 xs))"
| "first_five (JStr s) = Inr (JStr (concat (take 5 (str_chars s))))"
| "first_five (JObj kvs) = Inl TypeError_or_KeyError"
| "first_five v = Inl TypeError"

subsection \<open>Text of a value\<close>

text \<open>
  An f-string field \<^verbatim>\<open>{v}\<close> is \<^verbatim>\<open>str(v)\<close>: a str as it is, \<^verbatim>\<open>None\<close>, \<^verbatim>\<open>True\<close>,
  \<^verbatim>\<open>False\<close>, an int in decimal, and a list or a dict with \<^verbatim>\<open>repr()\<close> of its
  elements. \<^verbatim>\<open>repr()\<close> of a str (its quoting and escaping, which depends on the Unicode
  database) is the parameter \<open>q\<close>.
\<close>

fun nat_str :: "nat \<Rightarrow> string" where
  "nat_str n = (if n < 10 then [char_of (48 + n)] else nat_str (n div 10) @ [char_of (48 + n mod 10)])"

definition int_str :: "int \<Rightarrow> string" where
  "int_str i = (if i < 0 then CHR ''-'' # nat_str (nat (- i)) else nat_str (nat i))"

text \<open>\<^verbatim>\<open>sep.join(parts)\<close>\<close>

fun join :: "string \<Rightarrow> string list \<Rightarrow> string" where
  "join sep [] = []"
| "join sep [x] = x"
| "join sep (x # y # ys) = x @ sep @ join sep (y # ys)"

fun py_text :: "(string \<Rightarrow> string) \<Rightarrow> bool \<Rightarrow> json \<Rightarrow> string" where
  "py_text q r JNull = ''None''"
| "py_text q r (JBool b) = (if b then ''True'' else ''False'')"
| "py_text q r (JInt i) = int_str i"
| "py_text q r (JFloat f) = shown f"
| "py_text q r (JStr s) = (if r then q s else s)"
| "py_text q r (JArr xs) = ''['' @ join '', '' (map (py_text q True) xs) @ '']''"
| "py_text q r (JObj kvs) =
     ''{'' @ join '', '' (map (\<lambda>kv. q (fst kv) @ '': '' @ py_text q True (snd kv)) kvs) @ ''}''"

definition py_str :: "(string \<Rightarrow> string) \<Rightarrow> json \<Rightarrow> string" where
  "py_str q v = py_text q False v"

subsection \<open>Raising and sequencing\<close>

text \<open>
  A computation that may raise returns \<open>Inl\<close> of the error; \<open>and_then\<close> runs the next
  statement only when the one before it returned.
\<close>

definition and_then :: "py_error + 'a \<Rightarrow> ('a \<Rightarrow> py_error + 'b) \<Rightarrow> py_error + 'b" where
  "and_then r f = (case r of Inl e \<Rightarrow> Inl e | Inr x \<Rightarrow> f x)"

text \<open>
  A loop or a comprehension over a list: the body runs on the elements in order, and the
  first one that raises ends it.
\<close>

fun for_each :: "('a \<Rightarrow> py_error + 'b) \<Rightarrow> 'a list \<Rightarrow> py_error + 'b list" where
  "for_each f [] = Inr []"
| "for_each f (x # xs) =
     and_then (f x) (\<lambda>y. and_then (for_each f xs) (\<lambda>ys. Inr (y # ys)))"

section \<open>The HTTP fetch helper\<close>

text \<open>
  The weather service and the network are the environment. One call of
  \<^verbatim>\<open>client.get(url, headers=headers, timeout=30.0)\<close> either raises (network error,
  timeout, a URL the client refuses) or returns a response with a status code and a body
  that \<^verbatim>\<open>response.json()\<close> either decodes or rejects. The environment has a state of
  its own (\<open>'w\<close>), which every call may change, so that two calls need not be answered
  alike.
\<close>

datatype body = Malformed | Parsed json

datatype exchange = Raised | Response nat body

record request =
  req_url :: json
  req_headers :: "(string \<times> string) list"
  req_timeout :: nat

type_synonym 'w client = "request \<Rightarrow> 'w \<Rightarrow> exchange \<times> 'w"

definition NWS_API_BASE :: string where
  "NWS_API_BASE = ''https://api.weather.gov''"

definition USER_AGENT :: string where
  "USER_AGENT = ''weather-app/1.0''"

text \<open>\<^verbatim>\<open>response.raise_for_status()\<close> returns on a 2xx status and raises on any other.\<close>

definition is_success :: "nat \<Rightarrow> bool" where
  "is_success status = (200 \<le> status \<and> status < 300)"

text \<open>
  \<^verbatim>\<open>make_nws_request\<close>: one GET inside \<^verbatim>\<open>try\<close>; \<^verbatim>\<open>except Exception\<close> turns whatever
  was raised into \<^verbatim>\<open>None\<close>. The logging calls write to stderr only.
\<close>

definition nws_request :: "json \<Rightarrow> request" where
  "nws_request u =
     \<lparr>req_url = u,
      req_headers = [(''User-Agent'', USER_AGENT), (''Accept'', ''application/geo+json'')],
      req_timeout = 30\<rparr>"

definition make_nws_request :: "'w client \<Rightarrow> json \<Rightarrow> 'w \<Rightarrow> json \<times> 'w" where
  "make_nws_request client_get u w =
     (case client_get (nws_request u) w of
        (Raised, w') \<Rightarrow> (JNull, w')
      | (Response status b, w') \<Rightarrow>
          (if \<not> is_success status then (JNull, w')
           else case b of Malformed \<Rightarrow> (JNull, w') | Parsed data \<Rightarrow> (data, w')))"

section \<open>The alert formatter\<close>

definition format_alert :: "(string \<Rightarrow> string) \<Rightarrow> json \<Rightarrow> py_error + string" where
  "format_alert q feature =
     and_then (subscript feature ''properties'') (\<lambda>props.
     and_then (dict_get props ''event'' (JStr ''Unknown'')) (\<lambda>event.
     and_then (dict_get props ''areaDesc'' (JStr ''Unknown'')) (\<lambda>areaDesc.
     and_then (dict_get props ''severity'' (JStr ''Unknown'')) (\<lambda>severity.
     and_then (dict_get props ''description'' (JStr ''No description available'')) (\<lambda>description.
     and_then (dict_get props ''instruction'' (JStr ''No specific instructions provided'')) (\<lambda>instruction.
       Inr (''\<newline>Event: '' @ py_str q event @
            ''\<newline>Area: '' @ py_str q areaDesc @
            ''\<newline>Severity: '' @ py_str q severity @
            ''\<newline>Description: '' @ py_str q description @
            ''\<newline>Instructions: '' @ py_str q instruction @
            ''\<newline>'')))))))"

section \<open>The tools\<close>

definition separator :: string where
  "separator = ''\<newline>---\<newline>''"

definition alerts_url :: "string \<Rightarrow> string" where
  "alerts_url state = NWS_API_BASE @ ''/alerts/active/area/'' @ state"

definition get_alerts ::
  "(string \<Rightarrow> string) \<Rightarrow> 'w client \<Rightarrow> string \<Rightarrow> 'w \<Rightarrow> (py_error + string) \<times> 'w" where
  "get_alerts q client_get state w =
     (case make_nws_request client_get (JStr (alerts_url state)) w of (data, w') \<Rightarrow>
        (if \<not> truthy data then Inr ''Unable to fetch alerts or no alerts found.''
         else and_then (py_in ''features'' data) (\<lambda>present.
           if \<not> present then Inr ''Unable to fetch alerts or no alerts found.''
           else and_then (subscript data ''features'') (\<lambda>features.
             if \<not> truthy features then Inr ''No active alerts for this state.''
             else and_then (iterate features) (\<lambda>fs.
                  and_then (for_each (format_alert q) fs) (\<lambda>alerts.
                    Inr (join separator alerts))))),
         w'))"

text \<open>The body of the loop over \<^verbatim>\<open>periods[:5]\<close>: the block of one period.\<close>

definition degree :: string where
  "degree = [CHR 0xC2, CHR 0xB0]"

definition forecast_block :: "(string \<Rightarrow> string) \<Rightarrow> json \<Rightarrow> py_error + string" where
  "forecast_block q period =
     and_then (subscript period ''name'') (\<lambda>name.
     and_then (subscript period ''temperature'') (\<lambda>temperature.
     and_then (subscript period ''temperatureUnit'') (\<lambda>temperatureUnit.
     and_then (subscript period ''windSpeed'') (\<lambda>windSpeed.
     and_then (subscript period ''windDirection'') (\<lambda>windDirection.
     and_then (subscript period ''detailedForecast'') (\<lambda>detailedForecast.
       Inr (''\<newline>'' @ py_str q name @ '':'' @
            ''\<newline>Temperature: '' @ py_str q temperature @ degree @ py_str q temperatureUnit @
            ''\<newline>Wind: '' @ py_str q windSpeed @ '' '' @ py_str q windDirection @
            ''\<newline>Forecast: '' @ py_str q detailedForecast @
            ''\<newline>'')))))))"

definition points_url :: "pyfloat \<Rightarrow> pyfloat \<Rightarrow> string" where
  "points_url latitude longitude =
     NWS_API_BASE @ ''/points/'' @ shown latitude @ '','' @ shown longitude"

definition get_forecast ::
  "(string \<Rightarrow> string) \<Rightarrow> 'w client \<Rightarrow> pyfloat \<Rightarrow> pyfloat \<Rightarrow> 'w \<Rightarrow> (py_error + string) \<times> 'w" where
  "get_forecast q client_get latitude longitude w =
     (case make_nws_request client_get (JStr (points_url latitude longitude)) w of
        (points_data, w1) \<Rightarrow>
          (if \<not> truthy points_data
           then (Inr ''Unable to fetch forecast data for this location.'', w1)
           else case and_then (subscript points_data ''properties'')
                       (\<lambda>p. subscript p ''forecast'') of
                  Inl e \<Rightarrow> (Inl e, w1)
                | Inr forecast_url \<Rightarrow>
                    (case make_nws_request client_get forecast_url w1 of
                       (forecast_data, w2) \<Rightarrow>
                         (if \<not> truthy forecast_data
                          then Inr ''Unable to fetch detailed forecast.''
                          else and_then (subscript forecast_data ''properties'') (\<lambda>p.
                               and_then (subscript p ''periods'') (\<lambda>periods.
                               and_then (first_five periods) (\<lambda>firsts.
                               and_then (iterate firsts) (\<lambda>ps.
                               and_then (for_each (forecast_block q) ps) (\<lambda>forecasts.
                                 Inr (join separator forecasts)))))),
                          w2))))"

section \<open>Vocabulary of the properties\<close>

text \<open>
  An environment for concrete runs: its state counts the calls made so far, and the
  \<open>n\<close>-th call is answered by the \<open>n\<close>-th exchange of a script (a call beyond the script
  raises).
\<close>

definition scripted :: "exchange list \<Rightarrow> nat client" where
  "scripted xs r n = (if n < length xs then xs ! n else Raised, Suc n)"

definition ok :: "json \<Rightarrow> exchange" where
  "ok data = Response 200 (Parsed data)"

text \<open>
  The text a properties record shows for one field: the text of the value when the key is
  there, the placeholder when it is not.
\<close>

definition field_text ::
  "(string \<Rightarrow> string) \<Rightarrow> (string \<times> json) list \<Rightarrow> string \<Rightarrow> string \<Rightarrow> string" where
  "field_text q props k placeholder =
     (case map_of props k of None \<Rightarrow> placeholder | Some v \<Rightarrow> py_str q v)"

text \<open>The five-line block of the specification, for a properties record.\<close>

definition five_line_block :: "(string \<Rightarrow> string) \<Rightarrow> (string \<times> json) list \<Rightarrow> string" where
  "five_line_block q props =
     ''\<newline>Event: '' @ field_text q props ''event'' ''Unknown'' @
     ''\<newline>Area: '' @ field_text q props ''areaDesc'' ''Unknown'' @
     ''\<newline>Severity: '' @ field_text q props ''severity'' ''Unknown'' @
     ''\<newline>Description: '' @ field_text q props ''description'' ''No description available'' @
     ''\<newline>Instructions: '' @
       field_text q props ''instruction'' ''No specific instructions provided'' @
     ''\<newline>''"

text \<open>A feature that is a record holding a record under \<^verbatim>\<open>properties\<close>.\<close>

definition has_properties :: "json \<Rightarrow> (string \<times> json) list \<Rightarrow> bool" where
  "has_properties feature props = (subscript feature ''properties'' = Inr (JObj props))"

text \<open>
  The six fields of a forecast period, and the four-line block of the specification for
  them.
\<close>

record period_fields =
  p_name :: json
  p_temperature :: json
  p_temperatureUnit :: json
  p_windSpeed :: json
  p_windDirection :: json
  p_detailedForecast :: json

definition has_fields :: "json \<Rightarrow> period_fields \<Rightarrow> bool" where
  "has_fields period f =
     (subscript period ''name'' = Inr (p_name f) \<and>
      subscript period ''temperature'' = Inr (p_temperature f) \<and>
      subscript period ''temperatureUnit'' = Inr (p_temperatureUnit f) \<and>
      subscript period ''windSpeed'' = Inr (p_windSpeed f) \<and>
      subscript period ''windDirection'' = Inr (p_windDirection f) \<and>
      subscript period ''detailedForecast'' = Inr (p_detailedForecast f))"

definition four_line_block :: "(string \<Rightarrow> string) \<Rightarrow> period_fields \<Rightarrow> string" where
  "four_line_block q f =
     ''\<newline>'' @ py_str q (p_name f) @ '':'' @
     ''\<newline>Temperature: '' @ py_str q (p_temperature f) @ degree @
       py_str q (p_temperatureUnit f) @
     ''\<newline>Wind: '' @ py_str q (p_windSpeed f) @ '' '' @ py_str q (p_windDirection f) @
     ''\<newline>Forecast: '' @ py_str q (p_detailedForecast f) @
     ''\<newline>''"

text \<open>
  The alerts values on which the alerts tool is meant to run: nothing fetched, or a record
  whose \<^verbatim>\<open>features\<close>, when there, is a list of records that each hold a record under
  \<^verbatim>\<open>properties\<close>.
\<close>

definition feature_ok :: "json \<Rightarrow> bool" where
  "feature_ok feature =
     (case subscript feature ''properties'' of Inr (JObj props) \<Rightarrow> True | _ \<Rightarrow> False)"

definition alerts_shaped :: "json \<Rightarrow> bool" where
  "alerts_shaped data =
     (case data of
        JNull \<Rightarrow> True
      | JObj kvs \<Rightarrow>
          (case map_of kvs ''features'' of
             None \<Rightarrow> True
           | Some (JArr xs) \<Rightarrow> list_all feature_ok xs
           | Some _ \<Rightarrow> False)
      | _ \<Rightarrow> False)"

text \<open>Sample answers of the weather service, for concrete runs.\<close>

definition flood :: "(string \<times> json) list" where
  "flood = [(''event'', JStr ''Flood Warning''), (''severity'', JStr ''Severe'')]"

definition sample_alerts :: json where
  "sample_alerts =
     JObj [(''type'', JStr ''FeatureCollection''),
           (''features'',
            JArr [JObj [(''id'', JStr ''a1''), (''properties'', JObj flood)],
                  JObj [(''properties'', JObj [])]])]"

definition forecast_link :: json where
  "forecast_link = JStr ''https://api.weather.gov/gridpoints/LWX/97,71/forecast''"

definition sample_points :: json where
  "sample_points = JObj [(''properties'', JObj [(''forecast'', forecast_link)])]"

definition sample_period :: "string \<Rightarrow> int \<Rightarrow> json" where
  "sample_period name temperature =
     JObj [(''number'', JInt 1), (''name'', JStr name), (''temperature'', JInt temperature),
           (''temperatureUnit'', JStr ''F''), (''windSpeed'', JStr ''5 mph''),
           (''windDirection'', JStr ''NW''), (''detailedForecast'', JStr ''Clear.'')]"

definition sample_fields :: "string \<Rightarrow> int \<Rightarrow> period_fields" where
  "sample_fields name temperature =
     \<lparr>p_name = JStr name, p_temperature = JInt temperature, p_temperatureUnit = JStr ''F'',
      p_windSpeed = JStr ''5 mph'', p_windDirection = JStr ''NW'',
      p_detailedForecast = JStr ''Clear.''\<rparr>"

definition sample_forecast :: "json list \<Rightarrow> json" where
  "sample_forecast periods = JObj [(''properties'', JObj [(''periods'', JArr periods)])]"

definition here :: pyfloat where
  "here = PyFloat True ''39.0''"

definition there :: pyfloat where
  "there = PyFloat True ''-77.0''"

section \<open>Basic facts\<close>

lemma py_str_JStr: "py_str q (JStr s) = s"
  by (simp add: py_str_def)

lemma subscript_Inr_truthy: "subscript v k = Inr x \<Longrightarrow> truthy v"
  by (cases v) (auto split: option.splits)

lemma subscript_Inr_iff:
  "subscript v k = Inr x \<longleftrightarrow> (\<exists>kvs. v = JObj kvs \<and> map_of kvs k = Some x)"
  by (cases v) (auto split: option.splits)

lemma format_alert_record:
  assumes "has_properties feature props"
  shows "format_alert q feature = Inr (five_line_block q props)"
  using assms
  by (simp add: has_properties_def format_alert_def and_then_def five_line_block_def
        field_text_def py_str_JStr split: option.splits)

lemma forecast_block_fields:
  assumes "has_fields period f"
  shows "forecast_block q period = Inr (four_line_block q f)"
  using assms
  by (simp add: has_fields_def forecast_block_def and_then_def four_line_block_def)

lemma for_each_map:
  "list_all2 (\<lambda>x y. f x = Inr (g y)) xs ys \<Longrightarrow> for_each f xs = Inr (map g ys)"
  by (induction xs ys rule: list_all2_induct) (simp_all add: and_then_def)

lemma make_nws_request_once:
  "snd (make_nws_request client_get u w) = snd (client_get (nws_request u) w)"
  by (simp add: make_nws_request_def split: prod.splits exchange.splits body.splits)

lemma make_nws_request_fst:
  assumes "fst (c1 (nws_request u) w1) = fst (c2 (nws_request u) w2)"
  shows "fst (make_nws_request c1 u w1) = fst (make_nws_request c2 u w2)"
  using assms
  by (cases "c1 (nws_request u) w1"; cases "c2 (nws_request u) w2")
     (simp add: make_nws_request_def split: exchange.splits body.splits)

text \<open>The text a tool returns is a function of what its fetches returned.\<close>

lemma get_alerts_fst:
  assumes "fst (make_nws_request c1 (JStr (alerts_url state)) w1) =
           fst (make_nws_request c2 (JStr (alerts_url state)) w2)"
  shows "fst (get_alerts q c1 state w1) = fst (get_alerts q c2 state w2)"
  using assms
  by (cases "make_nws_request c1 (JStr (alerts_url state)) w1";
      cases "make_nws_request c2 (JStr (alerts_url state)) w2")
     (simp add: get_alerts_def)

lemma get_forecast_fst:
  assumes "fst (make_nws_request c1 (JStr (points_url lat lon)) w1) =
           fst (make_nws_request c2 (JStr (points_url lat lon)) w2)"
    and "\<And>u. fst (make_nws_request c1 u (snd (make_nws_request c1 (JStr (points_url lat lon)) w1))) =
           fst (make_nws_request c2 u (snd (make_nws_request c2 (JStr (points_url lat lon)) w2)))"
  shows "fst (get_forecast q c1 lat lon w1) = fst (get_forecast q c2 lat lon w2)"
proof -
  obtain d1 v1 where p1: "make_nws_request c1 (JStr (points_url lat lon)) w1 = (d1, v1)"
    by (cases "make_nws_request c1 (JStr (points_url lat lon)) w1")
  obtain d2 v2 where p2: "make_nws_request c2 (JStr (points_url lat lon)) w2 = (d2, v2)"
    by (cases "make_nws_request c2 (JStr (points_url lat lon)) w2")
  have d: "d1 = d2" using assms(1) p1 p2 by simp
  have f: "fst (make_nws_request c1 u v1) = fst (make_nws_request c2 u v2)" for u
    using assms(2) [of u] p1 p2 by simp
  show ?thesis
  proof (cases "truthy d2")
    case False
    then show ?thesis by (simp add: get_forecast_def p1 p2 d)
  next
    case True
    show ?thesis
    proof (cases "and_then (subscript d2 ''properties'') (\<lambda>p. subscript p ''forecast'')")
      case (Inl e)
      then show ?thesis using True by (simp add: get_forecast_def p1 p2 d)
    next
      case (Inr u)
      obtain g1 x1 where q1: "make_nws_request c1 u v1 = (g1, x1)"
        by (cases "make_nws_request c1 u v1")
      obtain g2 x2 where q2: "make_nws_request c2 u v2 = (g2, x2)"
        by (cases "make_nws_request c2 u v2")
      have "g1 = g2" using f [of u] q1 q2 by simp
      then show ?thesis using True Inr by (simp add: get_forecast_def p1 p2 d q1 q2)
    qed
  qed
qed

lemma feature_ok_iff: "feature_ok feature \<longleftrightarrow> (\<exists>props. has_properties feature props)"
  by (auto simp: feature_ok_def has_properties_def split: sum.splits json.splits)

lemma for_each_feature_ok:
  "list_all feature_ok xs \<Longrightarrow> \<exists>ys. for_each (format_alert q) xs = Inr ys"
proof (induction xs)
  case Nil
  then show ?case by simp
next
  case (Cons x xs)
  then obtain props ys where "has_properties x props" "for_each (format_alert q) xs = Inr ys"
    by (auto simp: feature_ok_iff)
  then show ?case
    by (simp add: format_alert_record and_then_def)
qed

lemma get_alerts_text:
  assumes "fst (make_nws_request client_get (JStr (alerts_url state)) w) = data"
  shows "fst (get_alerts q client_get state w) =
     (if \<not> truthy data then Inr ''Unable to fetch alerts or no alerts found.''
      else and_then (py_in ''features'' data) (\<lambda>present.
        if \<not> present then Inr ''Unable to fetch alerts or no alerts found.''
        else and_then (subscript data ''features'') (\<lambda>features.
          if \<not> truthy features then Inr ''No active alerts for this state.''
          else and_then (iterate features) (\<lambda>fs.
               and_then (for_each (format_alert q) fs) (\<lambda>alerts.
                 Inr (join separator alerts))))))"
  using assms
  by (cases "make_nws_request client_get (JStr (alerts_url state)) w") (simp add: get_alerts_def)

lemma get_forecast_second:
  assumes "make_nws_request client_get (JStr (points_url lat lon)) w = (points_data, w1)"
    and "subscript points_data ''properties'' = Inr pp"
    and "subscript pp ''forecast'' = Inr u"
    and "make_nws_request client_get u w1 = (forecast_data, w2)"
  shows "get_forecast q client_get lat lon w =
     (if \<not> truthy forecast_data then Inr ''Unable to fetch detailed forecast.''
      else and_then (subscript forecast_data ''properties'') (\<lambda>p.
           and_then (subscript p ''periods'') (\<lambda>periods.
           and_then (first_five periods) (\<lambda>firsts.
           and_then (iterate firsts) (\<lambda>ps.
           and_then (for_each (forecast_block q) ps) (\<lambda>forecasts.
             Inr (join separator forecasts)))))), w2)"
proof -
  have "truthy points_data" using assms(2) by (rule subscript_Inr_truthy)
  then show ?thesis
    using assms by (simp add: get_forecast_def and_then_def)
qed

lemma fetch_scripted:
  "make_nws_request (scripted xs) u n =
     (case (if n < length xs then xs ! n else Raised) of
        Raised \<Rightarrow> JNull
      | Response status b \<Rightarrow>
          (if 200 \<le> status \<and> status < 300
           then (case b of Malformed \<Rightarrow> JNull | Parsed data \<Rightarrow> data) else JNull),
      Suc n)"
  by (simp add: make_nws_request_def scripted_def is_success_def
        split: exchange.splits body.splits)

section \<open>The fetch helper\<close>

text \<open>
  Claim C8. For every URL, \<^verbatim>\<open>make_nws_request\<close> returns the decoded JSON body when the
  request is answered with a 2xx status and a body that decodes, and returns \<^verbatim>\<open>None\<close>,
  raising nothing, when the request raises (network error, timeout), when the status is
  not 2xx, and when the body is malformed. It does not retry: the environment is left in
  the state that one single call of \<^verbatim>\<open>client.get\<close> puts it in.
\<close>

theorem make_nws_request_outcomes:
  "(client_get (nws_request u) w = (Response status (Parsed data), w') \<and>
      200 \<le> status \<and> status < 300 \<longrightarrow>
    make_nws_request client_get u w = (data, w')) \<and>
   (client_get (nws_request u) w = (Raised, w') \<longrightarrow>
    make_nws_request client_get u w = (JNull, w')) \<and>
   (client_get (nws_request u) w = (Response status b, w') \<and>
      \<not> (200 \<le> status \<and> status < 300) \<longrightarrow>
    make_nws_request client_get u w = (JNull, w')) \<and>
   (client_get (nws_request u) w = (Response status Malformed, w') \<longrightarrow>
    make_nws_request client_get u w = (JNull, w')) \<and>
   snd (make_nws_request client_get u w) = snd (client_get (nws_request u) w)"
  by (simp add: make_nws_request_def is_success_def
        split: prod.splits exchange.splits body.splits)

theorem make_nws_request_outcomes_witness:
  "make_nws_request (scripted [Response 200 (Parsed sample_points)]) forecast_link 0 =
     (sample_points, 1) \<and>
   make_nws_request (scripted [Raised]) forecast_link 0 = (JNull, 1) \<and>
   make_nws_request (scripted [Response 404 (Parsed sample_points)]) forecast_link 0 =
     (JNull, 1) \<and>
   make_nws_request (scripted [Response 200 Malformed]) forecast_link 0 = (JNull, 1)"
proof (intro conjI)
  show "make_nws_request (scripted [Response 200 (Parsed sample_points)]) forecast_link 0 =
     (sample_points, 1)"
    using make_nws_request_outcomes
      [where client_get = "scripted [Response 200 (Parsed sample_points)]"
         and u = forecast_link and w = 0 and status = 200 and data = sample_points and w' = 1]
    by (simp add: scripted_def)
  show "make_nws_request (scripted [Raised]) forecast_link 0 = (JNull, 1)"
    using make_nws_request_outcomes
      [where client_get = "scripted [Raised]" and u = forecast_link and w = 0 and w' = 1]
    by (simp add: scripted_def)
  show "make_nws_request (scripted [Response 404 (Parsed sample_points)]) forecast_link 0 =
     (JNull, 1)"
    using make_nws_request_outcomes
      [where client_get = "scripted [Response 404 (Parsed sample_points)]"
         and u = forecast_link and w = 0 and status = 404 and b = "Parsed sample_points"
         and w' = 1]
    by (simp add: scripted_def)
  show "make_nws_request (scripted [Response 200 Malformed]) forecast_link 0 = (JNull, 1)"
    using make_nws_request_outcomes
      [where client_get = "scripted [Response 200 Malformed]" and u = forecast_link
         and w = 0 and status = 200 and w' = 1]
    by (simp add: scripted_def)
qed

section \<open>Failures of the fetch\<close>

text \<open>
  Claim C3. When the fetch helper returns \<^verbatim>\<open>None\<close>, and also when the fetched alerts
  value does not contain \<^verbatim>\<open>features\<close> (a record without that key),
  \<^verbatim>\<open>get_alerts\<close> returns exactly "Unable to fetch alerts or no alerts found.".
  \<^verbatim>\<open>get_forecast\<close> returns exactly "Unable to fetch forecast data for this location."
  when the points fetch returns \<^verbatim>\<open>None\<close>, and exactly
  "Unable to fetch detailed forecast." when the points value gives a forecast locator
  and the fetch of that locator returns \<^verbatim>\<open>None\<close>.
\<close>

theorem fetch_failure_messages:
  "(fst (make_nws_request client_get (JStr (alerts_url state)) w) = JNull \<longrightarrow>
      fst (get_alerts q client_get state w) =
        Inr ''Unable to fetch alerts or no alerts found.'') \<and>
   (py_in ''features'' (fst (make_nws_request client_get (JStr (alerts_url state)) w)) =
        Inr False \<longrightarrow>
      fst (get_alerts q client_get state w) =
        Inr ''Unable to fetch alerts or no alerts found.'') \<and>
   (fst (make_nws_request client_get (JStr (points_url lat lon)) w) = JNull \<longrightarrow>
      fst (get_forecast q client_get lat lon w) =
        Inr ''Unable to fetch forecast data for this location.'') \<and>
   (make_nws_request client_get (JStr (points_url lat lon)) w = (points_data, w') \<and>
    subscript points_data ''properties'' = Inr pp \<and>
    subscript pp ''forecast'' = Inr u \<and>
    fst (make_nws_request client_get u w') = JNull \<longrightarrow>
      fst (get_forecast q client_get lat lon w) = Inr ''Unable to fetch detailed forecast.'')"
proof (intro conjI impI)
  assume "fst (make_nws_request client_get (JStr (alerts_url state)) w) = JNull"
  then show "fst (get_alerts q client_get state w) =
        Inr ''Unable to fetch alerts or no alerts found.''"
    by (simp add: get_alerts_text)
next
  assume "py_in ''features'' (fst (make_nws_request client_get (JStr (alerts_url state)) w)) =
        Inr False"
  then show "fst (get_alerts q client_get state w) =
        Inr ''Unable to fetch alerts or no alerts found.''"
    by (simp add: get_alerts_text [OF refl] and_then_def)
next
  assume "fst (make_nws_request client_get (JStr (points_url lat lon)) w) = JNull"
  then show "fst (get_forecast q client_get lat lon w) =
        Inr ''Unable to fetch forecast data for this location.''"
    by (cases "make_nws_request client_get (JStr (points_url lat lon)) w")
       (simp add: get_forecast_def)
next
  assume a: "make_nws_request client_get (JStr (points_url lat lon)) w = (points_data, w') \<and>
    subscript points_data ''properties'' = Inr pp \<and>
    subscript pp ''forecast'' = Inr u \<and>
    fst (make_nws_request client_get u w') = JNull"
  obtain w2 where "make_nws_request client_get u w' = (JNull, w2)"
    using a by (cases "make_nws_request client_get u w'") simp
  then show "fst (get_forecast q client_get lat lon w) =
       Inr ''Unable to fetch detailed forecast.''"
    using a by (simp add: get_forecast_second [of client_get lat lon w points_data w' pp u JNull w2])
qed

theorem fetch_failure_messages_witness:
  "fst (get_alerts id (scripted [Response 500 (Parsed sample_alerts)]) ''CA'' 0) =
     Inr ''Unable to fetch alerts or no alerts found.'' \<and>
   fst (get_alerts id (scripted [ok (JObj [(''title'', JStr ''x'')])]) ''CA'' 0) =
     Inr ''Unable to fetch alerts or no alerts found.'' \<and>
   fst (get_forecast id (scripted [Raised]) here there 0) =
     Inr ''Unable to fetch forecast data for this location.'' \<and>
   fst (get_forecast id (scripted [ok sample_points, Response 200 Malformed]) here there 0) =
     Inr ''Unable to fetch detailed forecast.''"
proof (intro conjI)
  show "fst (get_alerts id (scripted [Response 500 (Parsed sample_alerts)]) ''CA'' 0) =
     Inr ''Unable to fetch alerts or no alerts found.''"
    using fetch_failure_messages
      [where client_get = "scripted [Response 500 (Parsed sample_alerts)]"
         and state = "''CA''" and w = 0 and q = id]
    by (simp add: fetch_scripted)
  show "fst (get_alerts id (scripted [ok (JObj [(''title'', JStr ''x'')])]) ''CA'' 0) =
     Inr ''Unable to fetch alerts or no alerts found.''"
    using fetch_failure_messages
      [where client_get = "scripted [ok (JObj [(''title'', JStr ''x'')])]" and state = "''CA''"
         and w = 0 and q = id]
    by (simp add: fetch_scripted ok_def)
  show "fst (get_forecast id (scripted [Raised]) here there 0) =
     Inr ''Unable to fetch forecast data for this location.''"
    using fetch_failure_messages
      [where client_get = "scripted [Raised]" and w = 0 and q = id and lat = here and lon = there]
    by (simp add: fetch_scripted)
  show "fst (get_forecast id (scripted [ok sample_points, Response 200 Malformed]) here there 0) =
     Inr ''Unable to fetch detailed forecast.''"
    using fetch_failure_messages
      [where client_get = "scripted [ok sample_points, Response 200 Malformed]" and w = 0
         and q = id and lat = here and lon = there and points_data = sample_points and w' = 1
         and pp = "JObj [(''forecast'', forecast_link)]" and u = forecast_link]
    by (simp add: fetch_scripted ok_def sample_points_def)
qed

text \<open>
  Claim C2. Some answers of the service that are valid JSON but lack an expected nested
  key make the tool raise instead of returning a text: a feature without
  \<^verbatim>\<open>properties\<close> for \<^verbatim>\<open>get_alerts\<close>; a points value without \<^verbatim>\<open>properties\<close> or
  without \<^verbatim>\<open>forecast\<close>, and a forecast value without \<^verbatim>\<open>properties\<close> or without
  \<^verbatim>\<open>periods\<close>, for \<^verbatim>\<open>get_forecast\<close>. Each of them raises \<^verbatim>\<open>KeyError\<close>.
\<close>

theorem missing_keys_fault:
  "fst (get_alerts q (scripted [ok (JObj [(''features'', JArr [JObj [(''id'', JStr ''a1'')]])])])
         state 0) = Inl KeyError \<and>
   fst (get_forecast q (scripted [ok (JObj [(''id'', JStr ''p1'')])]) lat lon 0) = Inl KeyError \<and>
   fst (get_forecast q (scripted [ok (JObj [(''properties'', JObj [(''cwa'', JStr ''LWX'')])])])
         lat lon 0) = Inl KeyError \<and>
   fst (get_forecast q (scripted [ok sample_points, ok (JObj [(''type'', JStr ''Feature'')])])
         lat lon 0) = Inl KeyError \<and>
   fst (get_forecast q
         (scripted [ok sample_points, ok (JObj [(''properties'', JObj [(''units'', JStr ''us'')])])])
         lat lon 0) = Inl KeyError"
  by (simp add: get_alerts_def get_forecast_def fetch_scripted ok_def sample_points_def
        and_then_def format_alert_def)

section \<open>The alerts tool\<close>

text \<open>
  Claim C1, as the specification states it, says that \<^verbatim>\<open>get_alerts\<close> returns a string
  for every answer of the service, also for one whose features hold a record without
  \<^verbatim>\<open>properties\<close>. On that answer the tool raises \<^verbatim>\<open>KeyError\<close>.
\<close>

theorem get_alerts_raises_counterexample:
  "fst (get_alerts id (scripted [ok (JObj [(''features'', JArr [JObj []])])]) ''CA'' 0) =
     Inl KeyError"
  by (simp add: get_alerts_def fetch_scripted ok_def and_then_def format_alert_def)

text \<open>
  Claim C1, amended. For every input state, \<^verbatim>\<open>get_alerts\<close> returns a string and raises
  nothing whenever the fetch returned \<^verbatim>\<open>None\<close> or a record whose \<^verbatim>\<open>features\<close>, when
  there, is a list of records that each hold a record under \<^verbatim>\<open>properties\<close>.
\<close>

theorem get_alerts_returns_when_shaped:
  assumes "alerts_shaped (fst (make_nws_request client_get (JStr (alerts_url state)) w))"
  shows "\<exists>s. fst (get_alerts q client_get state w) = Inr s"
proof -
  define data where "data = fst (make_nws_request client_get (JStr (alerts_url state)) w)"
  have t: "fst (get_alerts q client_get state w) =
     (if \<not> truthy data then Inr ''Unable to fetch alerts or no alerts found.''
      else and_then (py_in ''features'' data) (\<lambda>present.
        if \<not> present then Inr ''Unable to fetch alerts or no alerts found.''
        else and_then (subscript data ''features'') (\<lambda>features.
          if \<not> truthy features then Inr ''No active alerts for this state.''
          else and_then (iterate features) (\<lambda>fs.
               and_then (for_each (format_alert q) fs) (\<lambda>alerts.
                 Inr (join separator alerts))))))"
    by (rule get_alerts_text) (simp add: data_def)
  have s: "alerts_shaped data" using assms by (simp add: data_def)
  show ?thesis
  proof (cases data)
    case (JObj kvs)
    show ?thesis
    proof (cases "map_of kvs ''features''")
      case None
      then show ?thesis using JObj by (simp add: t and_then_def)
    next
      case (Some fs)
      then obtain xs where fs: "fs = JArr xs" and ok: "list_all feature_ok xs"
        using s JObj by (auto simp: alerts_shaped_def split: json.splits)
      obtain ys where "for_each (format_alert q) xs = Inr ys"
        using for_each_feature_ok [OF ok] by blast
      then show ?thesis using JObj Some fs by (auto simp: t and_then_def)
    qed
  qed (use s in \<open>simp_all add: t alerts_shaped_def\<close>)
qed

theorem get_alerts_returns_when_shaped_witness:
  "alerts_shaped (fst (make_nws_request (scripted [ok sample_alerts])
                         (JStr (alerts_url ''CA'')) 0)) \<and>
   (\<exists>s. fst (get_alerts id (scripted [ok sample_alerts]) ''CA'' 0) = Inr s)"
proof -
  have h: "alerts_shaped (fst (make_nws_request (scripted [ok sample_alerts])
                                 (JStr (alerts_url ''CA'')) 0))"
    by (simp add: fetch_scripted ok_def sample_alerts_def alerts_shaped_def feature_ok_def)
  show ?thesis
    using h get_alerts_returns_when_shaped [OF h, of id] by simp
qed

text \<open>
  Claim C4. For every alerts value in which \<^verbatim>\<open>features\<close> is present and is an empty
  list, \<^verbatim>\<open>get_alerts\<close> returns exactly "No active alerts for this state.".
\<close>

theorem get_alerts_no_active:
  assumes "fst (make_nws_request client_get (JStr (alerts_url state)) w) = data"
    and "subscript data ''features'' = Inr (JArr [])"
  shows "fst (get_alerts q client_get state w) = Inr ''No active alerts for this state.''"
proof -
  obtain kvs where "data = JObj kvs" "map_of kvs ''features'' = Some (JArr [])"
    using assms(2) by (auto simp: subscript_Inr_iff)
  moreover have "truthy data" using assms(2) by (rule subscript_Inr_truthy)
  ultimately show ?thesis
    by (simp add: get_alerts_text [OF assms(1)] and_then_def)
qed

theorem get_alerts_no_active_witness:
  "fst (get_alerts id (scripted [ok (JObj [(''features'', JArr [])])]) ''XX'' 0) =
     Inr ''No active alerts for this state.''"
proof -
  have h1: "fst (make_nws_request (scripted [ok (JObj [(''features'', JArr [])])])
                   (JStr (alerts_url ''XX'')) 0) = JObj [(''features'', JArr [])]"
    by (simp add: fetch_scripted ok_def)
  have h2: "subscript (JObj [(''features'', JArr [])]) ''features'' = Inr (JArr [])"
    by simp
  show ?thesis
    by (rule get_alerts_no_active [OF h1 h2])
qed

text \<open>
  Claim C5, as the specification states it, asks only that each of the features has a
  \<^verbatim>\<open>properties\<close> key. A feature whose \<^verbatim>\<open>properties\<close> is not a record (here a list)
  has the key, and the tool raises \<^verbatim>\<open>AttributeError\<close> on it.
\<close>

theorem get_alerts_blocks_counterexample:
  "fst (get_alerts id
         (scripted [ok (JObj [(''features'', JArr [JObj [(''properties'', JArr [])]])])])
         ''CA'' 0) = Inl AttributeError"
  by (simp add: get_alerts_def fetch_scripted ok_def and_then_def format_alert_def)

text \<open>
  Claim C5, amended. For every alerts value with \<open>N \<ge> 1\<close> features, each a record that
  holds a record under \<^verbatim>\<open>properties\<close>, the string \<^verbatim>\<open>get_alerts\<close> returns is exactly the
  \<open>N\<close> five-line blocks of these records, in their order, joined by the separator
  \<^verbatim>\<open>"\n---\n"\<close>. In a block the text of a field is the text of its value when the key is
  present (a string value verbatim) and the placeholder of the field when it is absent.
\<close>

theorem get_alerts_blocks:
  assumes "fst (make_nws_request client_get (JStr (alerts_url state)) w) = data"
    and "subscript data ''features'' = Inr (JArr features)"
    and "features \<noteq> []"
    and "list_all2 has_properties features ps"
  shows "fst (get_alerts q client_get state w) =
           Inr (join separator (map (five_line_block q) ps)) \<and>
         length ps = length features \<and>
         (\<forall>props k s d. map_of props k = Some (JStr s) \<longrightarrow> field_text q props k d = s) \<and>
         (\<forall>props k d. map_of props k = None \<longrightarrow> field_text q props k d = d)"
proof -
  obtain kvs where "data = JObj kvs" "map_of kvs ''features'' = Some (JArr features)"
    using assms(2) by (auto simp: subscript_Inr_iff)
  moreover have "truthy data" using assms(2) by (rule subscript_Inr_truthy)
  moreover have "for_each (format_alert q) features = Inr (map (five_line_block q) ps)"
    by (rule for_each_map) (use assms(4) in \<open>simp add: format_alert_record list_all2_mono\<close>)
  moreover have "length ps = length features"
    using list_all2_lengthD [OF assms(4)] by simp
  ultimately show ?thesis
    using assms(3)
    by (simp add: get_alerts_text [OF assms(1)] and_then_def field_text_def py_str_JStr)
qed

theorem get_alerts_blocks_witness:
  "fst (get_alerts id (scripted [ok sample_alerts]) ''CA'' 0) =
     Inr (''\<newline>Event: Flood Warning'' @
          ''\<newline>Area: Unknown'' @
          ''\<newline>Severity: Severe'' @
          ''\<newline>Description: No description available'' @
          ''\<newline>Instructions: No specific instructions provided'' @
          ''\<newline>'' @
          ''\<newline>---\<newline>'' @
          ''\<newline>Event: Unknown'' @
          ''\<newline>Area: Unknown'' @
          ''\<newline>Severity: Unknown'' @
          ''\<newline>Description: No description available'' @
          ''\<newline>Instructions: No specific instructions provided'' @
          ''\<newline>'')"
proof -
  have h1: "fst (make_nws_request (scripted [ok sample_alerts]) (JStr (alerts_url ''CA'')) 0) =
          sample_alerts"
    by (simp add: fetch_scripted ok_def)
  have h2: "subscript sample_alerts ''features'' =
          Inr (JArr [JObj [(''id'', JStr ''a1''), (''properties'', JObj flood)],
                     JObj [(''properties'', JObj [])]])"
    by (simp add: sample_alerts_def)
  have h3: "[JObj [(''id'', JStr ''a1''), (''properties'', JObj flood)],
             JObj [(''properties'', JObj [])]] \<noteq> []"
    by simp
  have h4: "list_all2 has_properties
              [JObj [(''id'', JStr ''a1''), (''properties'', JObj flood)],
               JObj [(''properties'', JObj [])]] [flood, []]"
    by (simp add: has_properties_def)
  show ?thesis
    using get_alerts_blocks [OF h1 h2 h3 h4, of id]
    by (simp add: five_line_block_def field_text_def py_str_JStr separator_def flood_def)
qed

section \<open>The alert formatter\<close>

text \<open>
  Claim C7, as the specification states it, asks only that the feature record contains a
  \<^verbatim>\<open>properties\<close> key. When the value under that key is not a record (here
  \<^verbatim>\<open>None\<close>, JSON \<^verbatim>\<open>null\<close>), \<^verbatim>\<open>format_alert\<close> raises \<^verbatim>\<open>AttributeError\<close>.
\<close>

theorem format_alert_block_counterexample:
  "format_alert id (JObj [(''properties'', JNull)]) = Inl AttributeError"
  by (simp add: format_alert_def and_then_def)

text \<open>
  Claim C7, amended. For every alert feature record that holds a record under
  \<^verbatim>\<open>properties\<close>, \<^verbatim>\<open>format_alert\<close> returns the fixed five-line block in which each of
  the fields event, areaDesc, severity, description and instruction is replaced by the
  text of its value (a string value as it is) or, when the field is missing, by its
  placeholder: "Unknown", "Unknown", "Unknown", "No description available",
  "No specific instructions provided".
\<close>

theorem format_alert_block:
  assumes "has_properties feature props"
  shows "format_alert q feature =
     Inr (''\<newline>Event: '' @
            (case map_of props ''event'' of None \<Rightarrow> ''Unknown'' | Some v \<Rightarrow> py_str q v) @
          ''\<newline>Area: '' @
            (case map_of props ''areaDesc'' of None \<Rightarrow> ''Unknown'' | Some v \<Rightarrow> py_str q v) @
          ''\<newline>Severity: '' @
            (case map_of props ''severity'' of None \<Rightarrow> ''Unknown'' | Some v \<Rightarrow> py_str q v) @
          ''\<newline>Description: '' @
            (case map_of props ''description'' of
               None \<Rightarrow> ''No description available'' | Some v \<Rightarrow> py_str q v) @
          ''\<newline>Instructions: '' @
            (case map_of props ''instruction'' of
               None \<Rightarrow> ''No specific instructions provided'' | Some v \<Rightarrow> py_str q v) @
          ''\<newline>'') \<and>
     (\<forall>s. py_str q (JStr s) = s)"
  using format_alert_record [OF assms, of q]
  by (simp add: five_line_block_def field_text_def py_str_JStr)

theorem format_alert_block_witness:
  "format_alert id (JObj [(''id'', JStr ''a1''), (''properties'', JObj flood)]) =
     Inr (''\<newline>Event: Flood Warning'' @
          ''\<newline>Area: Unknown'' @
          ''\<newline>Severity: Severe'' @
          ''\<newline>Description: No description available'' @
          ''\<newline>Instructions: No specific instructions provided'' @
          ''\<newline>'')"
proof -
  have h: "has_properties (JObj [(''id'', JStr ''a1''), (''properties'', JObj flood)]) flood"
    by (simp add: has_properties_def)
  show ?thesis
    using format_alert_block [OF h, of id] by (simp add: flood_def)
qed

section \<open>The forecast tool\<close>

text \<open>
  Claim C6, as the specification states it, asks only that \<^verbatim>\<open>properties.periods\<close> is a
  list of \<open>M\<close> entries. An entry that lacks one of the six keys the block reads (here
  all but \<^verbatim>\<open>name\<close>) makes the tool raise \<^verbatim>\<open>KeyError\<close>.
\<close>

theorem get_forecast_blocks_counterexample:
  "fst (get_forecast id
         (scripted [ok sample_points, ok (sample_forecast [JObj [(''name'', JStr ''Tonight'')]])])
         here there 0) = Inl KeyError"
  by (simp add: get_forecast_def fetch_scripted ok_def sample_points_def sample_forecast_def
        and_then_def forecast_block_def)

text \<open>
  Claim C6, amended. For every forecast value whose \<^verbatim>\<open>properties.periods\<close> is a list of
  \<open>M\<close> entries, the first \<open>min(M,5)\<close> of which are records with the keys name,
  temperature, temperatureUnit, windSpeed, windDirection and detailedForecast,
  \<^verbatim>\<open>get_forecast\<close> returns \<open>min(M,5)\<close> blocks joined by \<^verbatim>\<open>"\n---\n"\<close>, in the order
  of the list; a block shows the name, the temperature followed at once by the degree sign
  and the unit, the wind speed and the wind direction with one space between them, and the
  detailed forecast, each as the text of its value.
\<close>

theorem get_forecast_blocks:
  assumes "make_nws_request client_get (JStr (points_url lat lon)) w = (points_data, w1)"
    and "subscript points_data ''properties'' = Inr pp"
    and "subscript pp ''forecast'' = Inr u"
    and "make_nws_request client_get u w1 = (forecast_data, w2)"
    and "subscript forecast_data ''properties'' = Inr fp"
    and "subscript fp ''periods'' = Inr (JArr periods)"
    and "list_all2 has_fields (take 5 periods) fs"
  shows "get_forecast q client_get lat lon w =
           (Inr (join separator (map (four_line_block q) fs)), w2) \<and>
         length fs = min (length periods) 5"
proof -
  have "truthy forecast_data" using assms(5) by (rule subscript_Inr_truthy)
  moreover have "for_each (forecast_block q) (take 5 periods) = Inr (map (four_line_block q) fs)"
    by (rule for_each_map) (use assms(7) in \<open>simp add: forecast_block_fields list_all2_mono\<close>)
  moreover have "length fs = min (length periods) 5"
    using list_all2_lengthD [OF assms(7)] by simp
  ultimately show ?thesis
    using assms(5,6)
    by (simp add: get_forecast_second [OF assms(1-4)] and_then_def)
qed

theorem get_forecast_blocks_witness:
  "get_forecast id
     (scripted [ok sample_points,
                ok (sample_forecast
                     [sample_period ''Today'' 71, sample_period ''Tonight'' 54,
                      sample_period ''Tuesday'' 68, sample_period ''Tuesday Night'' 50,
                      sample_period ''Wednesday'' 66, sample_period ''Wednesday Night'' 49])])
     here there 0 =
     (Inr (join ''\<newline>---\<newline>''
            (map (four_line_block id)
               [sample_fields ''Today'' 71, sample_fields ''Tonight'' 54,
                sample_fields ''Tuesday'' 68, sample_fields ''Tuesday Night'' 50,
                sample_fields ''Wednesday'' 66])), 2) \<and>
   four_line_block id (sample_fields ''Today'' 71) =
     ''\<newline>Today:'' @
     ''\<newline>Temperature: 71'' @ [CHR 0xC2, CHR 0xB0] @ ''F'' @
     ''\<newline>Wind: 5 mph NW'' @
     ''\<newline>Forecast: Clear.'' @
     ''\<newline>''"
proof -
  let ?periods = "[sample_period ''Today'' 71, sample_period ''Tonight'' 54,
                   sample_period ''Tuesday'' 68, sample_period ''Tuesday Night'' 50,
                   sample_period ''Wednesday'' 66, sample_period ''Wednesday Night'' 49]"
  let ?client = "scripted [ok sample_points, ok (sample_forecast ?periods)]"
  have h1: "make_nws_request ?client (JStr (points_url here there)) 0 = (sample_points, 1)"
    by (simp add: fetch_scripted ok_def)
  have h2: "subscript sample_points ''properties'' = Inr (JObj [(''forecast'', forecast_link)])"
    by (simp add: sample_points_def)
  have h3: "subscript (JObj [(''forecast'', forecast_link)]) ''forecast'' = Inr forecast_link"
    by simp
  have h4: "make_nws_request ?client forecast_link 1 = (sample_forecast ?periods, 2)"
    by (simp add: fetch_scripted ok_def)
  have h5: "subscript (sample_forecast ?periods) ''properties'' =
              Inr (JObj [(''periods'', JArr ?periods)])"
    by (simp add: sample_forecast_def)
  have h6: "subscript (JObj [(''periods'', JArr ?periods)]) ''periods'' = Inr (JArr ?periods)"
    by simp
  have h7: "list_all2 has_fields (take 5 ?periods)
              [sample_fields ''Today'' 71, sample_fields ''Tonight'' 54,
               sample_fields ''Tuesday'' 68, sample_fields ''Tuesday Night'' 50,
               sample_fields ''Wednesday'' 66]"
    by (simp add: has_fields_def sample_period_def sample_fields_def)
  have t: "four_line_block id (sample_fields ''Today'' 71) =
     ''\<newline>Today:'' @
     ''\<newline>Temperature: 71'' @ [CHR 0xC2, CHR 0xB0] @ ''F'' @
     ''\<newline>Wind: 5 mph NW'' @
     ''\<newline>Forecast: Clear.'' @
     ''\<newline>''"
    by code_simp
  show ?thesis
    using get_forecast_blocks [OF h1 h2 h3 h4 h5 h6 h7, of id] t
    by (simp add: separator_def)
qed

text \<open>
  Claim C10. For every points value and forecast value that are truthy and well-formed
  (the points value gives a forecast locator under \<^verbatim>\<open>properties.forecast\<close>, the forecast
  value holds a list under \<^verbatim>\<open>properties.periods\<close>) and whose list of periods is empty,
  \<^verbatim>\<open>get_forecast\<close> returns the empty string, the join of no blocks, and so none of the
  fixed failure messages.
\<close>

theorem get_forecast_no_periods:
  assumes "make_nws_request client_get (JStr (points_url lat lon)) w = (points_data, w1)"
    and "subscript points_data ''properties'' = Inr pp"
    and "subscript pp ''forecast'' = Inr u"
    and "make_nws_request client_get u w1 = (forecast_data, w2)"
    and "subscript forecast_data ''properties'' = Inr fp"
    and "subscript fp ''periods'' = Inr (JArr [])"
  shows "get_forecast q client_get lat lon w = (Inr [], w2) \<and>
         fst (get_forecast q client_get lat lon w) \<noteq>
           Inr ''Unable to fetch forecast data for this location.'' \<and>
         fst (get_forecast q client_get lat lon w) \<noteq> Inr ''Unable to fetch detailed forecast.''"
proof -
  have "truthy forecast_data" using assms(5) by (rule subscript_Inr_truthy)
  then show ?thesis
    using assms(5,6)
    by (simp add: get_forecast_second [OF assms(1-4)] and_then_def)
qed

theorem get_forecast_no_periods_witness:
  "get_forecast id (scripted [ok sample_points, ok (sample_forecast [])]) here there 0 =
     (Inr [], 2)"
proof -
  let ?client = "scripted [ok sample_points, ok (sample_forecast [])]"
  have h1: "make_nws_request ?client (JStr (points_url here there)) 0 = (sample_points, 1)"
    by (simp add: fetch_scripted ok_def)
  have h2: "subscript sample_points ''properties'' = Inr (JObj [(''forecast'', forecast_link)])"
    by (simp add: sample_points_def)
  have h3: "subscript (JObj [(''forecast'', forecast_link)]) ''forecast'' = Inr forecast_link"
    by simp
  have h4: "make_nws_request ?client forecast_link 1 = (sample_forecast [], 2)"
    by (simp add: fetch_scripted ok_def)
  have h5: "subscript (sample_forecast []) ''properties'' = Inr (JObj [(''periods'', JArr [])])"
    by (simp add: sample_forecast_def)
  have h6: "subscript (JObj [(''periods'', JArr [])]) ''periods'' = Inr (JArr [])"
    by simp
  show ?thesis
    using get_forecast_no_periods [OF h1 h2 h3 h4 h5 h6, of id] by simp
qed

section \<open>Determinism\<close>

text \<open>
  Claim C9. Two invocations of \<^verbatim>\<open>get_alerts\<close> with the same input, whose fetch is
  answered alike, return the same string, byte for byte; so do two invocations of
  \<^verbatim>\<open>get_forecast\<close> with the same inputs whose two fetches are answered alike. The two
  invocations may run in different environments and in different states of them.
\<close>

theorem tools_deterministic:
  "(fst (ca (nws_request (JStr (alerts_url state))) wa) =
      fst (cb (nws_request (JStr (alerts_url state))) wb) \<longrightarrow>
    fst (get_alerts q ca state wa) = fst (get_alerts q cb state wb)) \<and>
   (fst (ca (nws_request (JStr (points_url lat lon))) va) =
      fst (cb (nws_request (JStr (points_url lat lon))) vb) \<and>
    (\<forall>u. fst (ca (nws_request u) (snd (ca (nws_request (JStr (points_url lat lon))) va))) =
         fst (cb (nws_request u) (snd (cb (nws_request (JStr (points_url lat lon))) vb)))) \<longrightarrow>
    fst (get_forecast q ca lat lon va) = fst (get_forecast q cb lat lon vb))"
proof (intro conjI impI)
  assume "fst (ca (nws_request (JStr (alerts_url state))) wa) =
      fst (cb (nws_request (JStr (alerts_url state))) wb)"
  then show "fst (get_alerts q ca state wa) = fst (get_alerts q cb state wb)"
    by (intro get_alerts_fst make_nws_request_fst)
next
  assume a: "fst (ca (nws_request (JStr (points_url lat lon))) va) =
      fst (cb (nws_request (JStr (points_url lat lon))) vb) \<and>
    (\<forall>u. fst (ca (nws_request u) (snd (ca (nws_request (JStr (points_url lat lon))) va))) =
         fst (cb (nws_request u) (snd (cb (nws_request (JStr (points_url lat lon))) vb))))"
  show "fst (get_forecast q ca lat lon va) = fst (get_forecast q cb lat lon vb)"
  proof (rule get_forecast_fst)
    show "fst (make_nws_request ca (JStr (points_url lat lon)) va) =
           fst (make_nws_request cb (JStr (points_url lat lon)) vb)"
      using a by (intro make_nws_request_fst) simp
  next
    fix u
    show "fst (make_nws_request ca u (snd (make_nws_request ca (JStr (points_url lat lon)) va))) =
           fst (make_nws_request cb u (snd (make_nws_request cb (JStr (points_url lat lon)) vb)))"
      using a by (intro make_nws_request_fst) (simp add: make_nws_request_once)
  qed
qed

theorem tools_deterministic_witness:
  "fst (get_alerts id (scripted [ok sample_alerts]) ''CA'' 0) =
     fst (get_alerts id (scripted [Raised, ok sample_alerts]) ''CA'' 1) \<and>
   fst (get_forecast id
          (scripted [ok sample_points, ok (sample_forecast [sample_period ''Today'' 71])])
          here there 0) =
     fst (get_forecast id
          (scripted [Raised, ok sample_points, ok (sample_forecast [sample_period ''Today'' 71])])
          here there 1)"
proof (intro conjI)
  show "fst (get_alerts id (scripted [ok sample_alerts]) ''CA'' 0) =
     fst (get_alerts id (scripted [Raised, ok sample_alerts]) ''CA'' 1)"
    using tools_deterministic
      [where ca = "scripted [ok sample_alerts]" and wa = 0
         and cb = "scripted [Raised, ok sample_alerts]" and wb = 1
         and state = "''CA''" and q = id]
    by (simp add: scripted_def)
  show "fst (get_forecast id
          (scripted [ok sample_points, ok (sample_forecast [sample_period ''Today'' 71])])
          here there 0) =
     fst (get_forecast id
          (scripted [Raised, ok sample_points, ok (sample_forecast [sample_period ''Today'' 71])])
          here there 1)"
    using tools_deterministic
      [where ca = "scripted [ok sample_points, ok (sample_forecast [sample_period ''Today'' 71])]"
         and va = 0
         and cb = "scripted [Raised, ok sample_points,
                             ok (sample_forecast [sample_period ''Today'' 71])]"
         and vb = 1 and lat = here and lon = there and q = id]
    by (simp add: scripted_def)
qed

end
